theory Spec2Isabelle
  imports Complex_Main
begin

section \<open>Numbers\<close>

text \<open>
  Python floats are modelled by the reals: the binary rounding error of each operation is
  not part of the model, so every statement below is about the exact values of the
  formulas of the source.  What the code does at a division by zero is part of the model:
  a Python \<open>float\<close> raises \<open>ZeroDivisionError\<close>, a value read from a DataFrame
  (a numpy \<open>float64\<close>) gives \<open>nan\<close> or an infinity instead (see \<open>npfloat\<close> below).
\<close>

datatype py_error = ZeroDivisionError | LibraryError

text \<open>
  \<open>round(x, 2)\<close>: the closest multiple of \<open>0.01\<close>, a tie going to the even multiple.
\<close>

definition round_half_even :: "real \<Rightarrow> int" where
  "round_half_even x =
     (let f = \<lfloor>x\<rfloor>; d = x - of_int f in
      if d < 1 / 2 then f
      else if 1 / 2 < d then f + 1
      else if even f then f else f + 1)"

definition py_round2 :: "real \<Rightarrow> real" where
  "py_round2 x = of_int (round_half_even (x * 100)) / 100"

text \<open>Python's true division of two floats.\<close>

definition float_div :: "real \<Rightarrow> real \<Rightarrow> py_error + real" where
  "float_div a b = (if b = 0 then Inl ZeroDivisionError else Inr (a / b))"

section \<open>predictor.py: target price and stop loss\<close>

text \<open>
  Lines 238--245 of \<open>calculate_target_price\<close>: the upside tier of a score.
\<close>

definition upside_of :: "real \<Rightarrow> real" where
  "upside_of sc =
     (if sc \<ge> 80 then 0.25
      else if sc \<ge> 65 then 0.15
      else if sc \<ge> 50 then 0.10
      else 0.05)"

text \<open>Line 247: \<open>target_price = current_price * (1 + upside)\<close>.\<close>

definition target_price_of :: "real \<Rightarrow> real \<Rightarrow> real" where
  "target_price_of current_price sc = current_price * (1 + upside_of sc)"

text \<open>Lines 250--255: the stop loss.\<close>

definition stop_loss_of :: "real \<Rightarrow> real \<Rightarrow> real" where
  "stop_loss_of current_price sc =
     (if sc \<ge> 70 then current_price * 0.92
      else if sc \<ge> 50 then current_price * 0.90
      else current_price * 0.85)"

text \<open>
  Line 257: \<open>risk_reward = upside / (1 - (stop_loss / current_price))\<close>.  Either division
  raises on a zero divisor.
\<close>

definition risk_reward_of :: "real \<Rightarrow> real \<Rightarrow> py_error + real" where
  "risk_reward_of current_price sc =
     (case float_div (stop_loss_of current_price sc) current_price of
        Inl e \<Rightarrow> Inl e
      | Inr q \<Rightarrow> float_div (upside_of sc) (1 - q))"

text \<open>
  The body of the \<open>try\<close> block (lines 237--265): the dictionary that is returned, or the
  exception that leaves the block.  The parameter \<open>prediction\<close> of the source is never
  read and is left out.
\<close>

definition target_price_body :: "real \<Rightarrow> real \<Rightarrow> py_error + (string \<rightharpoonup> real)" where
  "target_price_body current_price sc =
     (let upside = upside_of sc;
          target_price = target_price_of current_price sc;
          stop_loss = stop_loss_of current_price sc in
      case risk_reward_of current_price sc of
        Inl e \<Rightarrow> Inl e
      | Inr risk_reward \<Rightarrow>
          (case float_div stop_loss current_price of
             Inl e \<Rightarrow> Inl e
           | Inr q \<Rightarrow>
               Inr [''target_price'' \<mapsto> py_round2 target_price,
                    ''stop_loss'' \<mapsto> py_round2 stop_loss,
                    ''upside_potential'' \<mapsto> py_round2 (upside * 100),
                    ''downside_risk'' \<mapsto> py_round2 ((1 - q) * 100),
                    ''risk_reward_ratio'' \<mapsto> py_round2 risk_reward]))"

text \<open>
  \<open>calculate_target_price\<close>: the \<open>except Exception\<close> clause (lines 267--269) turns every
  exception of the body into the empty dictionary.  The result is a sum so that "raises to
  the caller" (\<open>Inl\<close>) can be stated; no branch of the function produces it.  The
  arguments are Python floats, as the signature says.  (Called with a numpy \<open>float64\<close>
  price of zero, line 257 gives \<open>nan\<close> instead of the exception; nothing is raised to the
  caller in that case either.)
\<close>

definition calculate_target_price :: "real \<Rightarrow> real \<Rightarrow> py_error + (string \<rightharpoonup> real)" where
  "calculate_target_price current_price sc =
     (case target_price_body current_price sc of
        Inl e \<Rightarrow> Inr Map.empty
      | Inr d \<Rightarrow> Inr d)"

section \<open>stock\_scorer.py: the overall score\<close>

text \<open>The weights set in \<open>__init__\<close> (lines 16--21).\<close>

definition weights :: "string \<rightharpoonup> real" where
  "weights = [''technical'' \<mapsto> 0.35, ''fundamental'' \<mapsto> 0.35,
              ''sentiment'' \<mapsto> 0.20, ''momentum'' \<mapsto> 0.10]"

text \<open>\<open>d.get(k, default)\<close>.\<close>

definition dict_get :: "(string \<rightharpoonup> 'a) \<Rightarrow> string \<Rightarrow> 'a \<Rightarrow> 'a" where
  "dict_get d k dflt = (case d k of None \<Rightarrow> dflt | Some v \<Rightarrow> v)"

text \<open>
  Lines 330--341: the weighted average before rounding.  Of the four argument dictionaries
  only the numeric entries are modelled, the others are never read here.  The keys of
  \<open>weights\<close> are all present, so \<open>self.weights[...]\<close> cannot raise.
\<close>

definition overall_value ::
  "(string \<rightharpoonup> real) \<Rightarrow> (string \<rightharpoonup> real) \<Rightarrow> (string \<rightharpoonup> real) \<Rightarrow> (string \<rightharpoonup> real) \<Rightarrow> real" where
  "overall_value technical fundamental sentiment momentum =
     (let tech_score = dict_get technical ''score'' 50.0;
          fund_score = dict_get fundamental ''score'' 50.0;
          sent_score = dict_get sentiment ''overall_sentiment_score'' 50.0;
          mom_score = dict_get momentum ''score'' 50.0 in
      tech_score * the (weights ''technical'') +
      fund_score * the (weights ''fundamental'') +
      sent_score * the (weights ''sentiment'') +
      mom_score * the (weights ''momentum''))"

record overall_result =
  overall_score :: real
  rating :: string
  stars :: nat
  component_scores :: "string \<rightharpoonup> real"

text \<open>Lines 343--358: rating and stars of the unrounded value.\<close>

definition rating_of :: "real \<Rightarrow> string \<times> nat" where
  "rating_of overall =
     (if overall \<ge> 80 then (''Strong Buy'', 5)
      else if overall \<ge> 65 then (''Buy'', 4)
      else if overall \<ge> 50 then (''Hold'', 3)
      else if overall \<ge> 35 then (''Sell'', 2)
      else (''Strong Sell'', 1))"

definition calculate_overall_score ::
  "(string \<rightharpoonup> real) \<Rightarrow> (string \<rightharpoonup> real) \<Rightarrow> (string \<rightharpoonup> real) \<Rightarrow> (string \<rightharpoonup> real)
     \<Rightarrow> overall_result" where
  "calculate_overall_score technical fundamental sentiment momentum =
     (let overall = overall_value technical fundamental sentiment momentum in
      \<lparr> overall_score = py_round2 overall,
        rating = fst (rating_of overall),
        stars = snd (rating_of overall),
        component_scores =
          [''technical'' \<mapsto> dict_get technical ''score'' 50.0,
           ''fundamental'' \<mapsto> dict_get fundamental ''score'' 50.0,
           ''sentiment'' \<mapsto> dict_get sentiment ''overall_sentiment_score'' 50.0,
           ''momentum'' \<mapsto> dict_get momentum ''score'' 50.0] \<rparr>)"

section \<open>stock\_scorer.py: the fundamental score\<close>

text \<open>
  The metrics dictionary maps a metric name to a number or to \<open>None\<close>
  (\<open>get_financial_metrics\<close> stores \<open>None\<close> for what the provider does not know).  It is
  an association list, so that the test \<open>not metrics\<close> is a test for the empty list.
\<close>

type_synonym metrics_map = "(string \<times> real option) list"

text \<open>\<open>metrics.get(k)\<close>: \<open>None\<close> for a missing key and for a key stored with \<open>None\<close>.\<close>

definition metrics_get :: "metrics_map \<Rightarrow> string \<Rightarrow> real option" where
  "metrics_get metrics k = (case map_of metrics k of None \<Rightarrow> None | Some v \<Rightarrow> v)"

text \<open>Truth value of \<open>None\<close> or a float in a condition: \<open>None\<close> and \<open>0\<close> are false.\<close>

definition truthy :: "real option \<Rightarrow> bool" where
  "truthy v = (case v of None \<Rightarrow> False | Some x \<Rightarrow> x \<noteq> 0)"

text \<open>
  Each block of the body updates the running \<open>score\<close> and the \<open>analysis\<close> dictionary; the
  blocks below are lines 142--150, 154--162, 166--172, 176--184, 188--196, 200--208,
  212--220, 224--228 and 232--236, each applied to the value that \<open>metrics.get\<close> returned.
\<close>

type_synonym fund_state = "int \<times> (string \<rightharpoonup> real)"

definition pe_block :: "real option \<Rightarrow> fund_state \<Rightarrow> fund_state" where
  "pe_block v = (\<lambda>(score, analysis).
     case v of None \<Rightarrow> (score, analysis)
     | Some pe \<Rightarrow>
         if truthy v \<and> pe > 0 then
           (if 10 < pe \<and> pe < 25 then score + 15
            else if 5 < pe \<and> pe < 35 then score + 10
            else if pe > 0 then score + 5
            else score,
            analysis(''pe_ratio'' \<mapsto> pe))
         else (score, analysis))"

definition peg_block :: "real option \<Rightarrow> fund_state \<Rightarrow> fund_state" where
  "peg_block v = (\<lambda>(score, analysis).
     case v of None \<Rightarrow> (score, analysis)
     | Some peg \<Rightarrow>
         if truthy v \<and> peg > 0 then
           (if peg < 1 then score + 15
            else if peg < 2 then score + 10
            else if peg < 3 then score + 5
            else score,
            analysis(''peg_ratio'' \<mapsto> peg))
         else (score, analysis))"

definition pb_block :: "real option \<Rightarrow> fund_state \<Rightarrow> fund_state" where
  "pb_block v = (\<lambda>(score, analysis).
     case v of None \<Rightarrow> (score, analysis)
     | Some pb \<Rightarrow>
         if truthy v \<and> pb > 0 then
           (if pb < 3 then score + 10
            else if pb < 5 then score + 5
            else score,
            analysis(''price_to_book'' \<mapsto> pb))
         else (score, analysis))"

text \<open>Debt to equity is tested with \<open>is not None\<close>, not for truth.\<close>

definition de_block :: "real option \<Rightarrow> fund_state \<Rightarrow> fund_state" where
  "de_block v = (\<lambda>(score, analysis).
     case v of None \<Rightarrow> (score, analysis)
     | Some de \<Rightarrow>
         (if de < 0.5 then score + 10
          else if de < 1.0 then score + 7
          else if de < 2.0 then score + 3
          else score,
          analysis(''debt_to_equity'' \<mapsto> de)))"

definition roe_block :: "real option \<Rightarrow> fund_state \<Rightarrow> fund_state" where
  "roe_block v = (\<lambda>(score, analysis).
     case v of None \<Rightarrow> (score, analysis)
     | Some roe \<Rightarrow>
         if truthy v then
           (if roe > 0.15 then score + 15
            else if roe > 0.10 then score + 10
            else if roe > 0.05 then score + 5
            else score,
            analysis(''roe'' \<mapsto> py_round2 (roe * 100)))
         else (score, analysis))"

definition margin_block :: "real option \<Rightarrow> fund_state \<Rightarrow> fund_state" where
  "margin_block v = (\<lambda>(score, analysis).
     case v of None \<Rightarrow> (score, analysis)
     | Some margin \<Rightarrow>
         if truthy v then
           (if margin > 0.20 then score + 10
            else if margin > 0.10 then score + 7
            else if margin > 0.05 then score + 3
            else score,
            analysis(''profit_margin'' \<mapsto> py_round2 (margin * 100)))
         else (score, analysis))"

definition rev_growth_block :: "real option \<Rightarrow> fund_state \<Rightarrow> fund_state" where
  "rev_growth_block v = (\<lambda>(score, analysis).
     case v of None \<Rightarrow> (score, analysis)
     | Some rev_growth \<Rightarrow>
         if truthy v then
           (if rev_growth > 0.20 then score + 15
            else if rev_growth > 0.10 then score + 10
            else if rev_growth > 0.05 then score + 5
            else score,
            analysis(''revenue_growth'' \<mapsto> py_round2 (rev_growth * 100)))
         else (score, analysis))"

definition div_yield_block :: "real option \<Rightarrow> fund_state \<Rightarrow> fund_state" where
  "div_yield_block v = (\<lambda>(score, analysis).
     case v of None \<Rightarrow> (score, analysis)
     | Some div_yield \<Rightarrow>
         if truthy v then
           (if div_yield > 0.02 then score + 5 else score,
            analysis(''dividend_yield'' \<mapsto> py_round2 (div_yield * 100)))
         else (score, analysis))"

definition beta_block :: "real option \<Rightarrow> fund_state \<Rightarrow> fund_state" where
  "beta_block v = (\<lambda>(score, analysis).
     case v of None \<Rightarrow> (score, analysis)
     | Some beta \<Rightarrow>
         if truthy v then
           (if 0.5 < beta \<and> beta < 1.5 then score + 5 else score,
            analysis(''beta'' \<mapsto> beta))
         else (score, analysis))"

record fund_result =
  fund_score :: real
  analysis :: "string \<rightharpoonup> real"

text \<open>
  \<open>calculate_fundamental_score\<close>.  \<open>max_score\<close> grows by the same constants on every path
  (lines 151, 163, 173, 185, 197, 209, 221, 229, 237).  With numbers or \<open>None\<close> as values
  no statement of the \<open>try\<close> block raises, so the \<open>except\<close> clause has no branch here.
\<close>

definition calculate_fundamental_score :: "metrics_map \<Rightarrow> fund_result" where
  "calculate_fundamental_score metrics =
     (if metrics = [] then \<lparr> fund_score = 50.0, analysis = Map.empty \<rparr>
      else
        let st0 = (0, Map.empty);
            st1 = pe_block (metrics_get metrics ''pe_ratio'') st0;
            st2 = peg_block (metrics_get metrics ''peg_ratio'') st1;
            st3 = pb_block (metrics_get metrics ''price_to_book'') st2;
            st4 = de_block (metrics_get metrics ''debt_to_equity'') st3;
            st5 = roe_block (metrics_get metrics ''roe'') st4;
            st6 = margin_block (metrics_get metrics ''profit_margin'') st5;
            st7 = rev_growth_block (metrics_get metrics ''revenue_growth'') st6;
            st8 = div_yield_block (metrics_get metrics ''dividend_yield'') st7;
            st9 = beta_block (metrics_get metrics ''beta'') st8;
            score = fst st9;
            max_score = (15 + 15 + 10 + 10 + 15 + 10 + 15 + 5 + 5 :: int);
            final_score =
              (if max_score > 0 then (of_int score / of_int max_score) * 100 else 50)
        in \<lparr> fund_score = py_round2 final_score, analysis = snd st9 \<rparr>)"

text \<open>
  The nine blocks in the order of the source, as a function of what \<open>metrics.get\<close>
  returns for each key.
\<close>

definition fund_blocks :: "(string \<Rightarrow> real option) \<Rightarrow> fund_state" where
  "fund_blocks g =
     beta_block (g ''beta'') (div_yield_block (g ''dividend_yield'')
       (rev_growth_block (g ''revenue_growth'') (margin_block (g ''profit_margin'')
         (roe_block (g ''roe'') (de_block (g ''debt_to_equity'')
           (pb_block (g ''price_to_book'') (peg_block (g ''peg_ratio'')
             (pe_block (g ''pe_ratio'') (0, Map.empty)))))))))"

section \<open>Values read from a DataFrame\<close>

text \<open>
  A value taken out of a pandas DataFrame is a numpy \<open>float64\<close>: arithmetic on it never
  raises, a division by zero gives \<open>nan\<close> or an infinity, \<open>nan\<close> propagates through the
  arithmetic, and every comparison with \<open>nan\<close> is false.  The type \<open>npfloat\<close> adds these
  three values to the reals.  Two things of the floating-point numbers are left out: the
  rounding error of each operation, and the sign of zero (a zero divisor is taken as
  \<open>+0.0\<close>).
\<close>

datatype npfloat = Fin real | PInf | NInf | NaN

fun fl_neg :: "npfloat \<Rightarrow> npfloat" where
  "fl_neg (Fin a) = Fin (- a)"
| "fl_neg PInf = NInf"
| "fl_neg NInf = PInf"
| "fl_neg NaN = NaN"

fun fl_add :: "npfloat \<Rightarrow> npfloat \<Rightarrow> npfloat" where
  "fl_add (Fin a) (Fin b) = Fin (a + b)"
| "fl_add NaN _ = NaN"
| "fl_add _ NaN = NaN"
| "fl_add PInf NInf = NaN"
| "fl_add NInf PInf = NaN"
| "fl_add PInf _ = PInf"
| "fl_add _ PInf = PInf"
| "fl_add NInf _ = NInf"
| "fl_add _ NInf = NInf"

definition fl_sub :: "npfloat \<Rightarrow> npfloat \<Rightarrow> npfloat" where
  "fl_sub a b = fl_add a (fl_neg b)"

fun fl_mul :: "npfloat \<Rightarrow> npfloat \<Rightarrow> npfloat" where
  "fl_mul (Fin a) (Fin b) = Fin (a * b)"
| "fl_mul NaN _ = NaN"
| "fl_mul _ NaN = NaN"
| "fl_mul PInf (Fin b) = (if 0 < b then PInf else if b < 0 then NInf else NaN)"
| "fl_mul NInf (Fin b) = (if 0 < b then NInf else if b < 0 then PInf else NaN)"
| "fl_mul (Fin a) PInf = (if 0 < a then PInf else if a < 0 then NInf else NaN)"
| "fl_mul (Fin a) NInf = (if 0 < a then NInf else if a < 0 then PInf else NaN)"
| "fl_mul PInf PInf = PInf"
| "fl_mul PInf NInf = NInf"
| "fl_mul NInf PInf = NInf"
| "fl_mul NInf NInf = PInf"

fun fl_div :: "npfloat \<Rightarrow> npfloat \<Rightarrow> npfloat" where
  "fl_div (Fin a) (Fin b) =
     (if b = 0 then (if a = 0 then NaN else if 0 < a then PInf else NInf) else Fin (a / b))"
| "fl_div NaN _ = NaN"
| "fl_div _ NaN = NaN"
| "fl_div (Fin a) PInf = Fin 0"
| "fl_div (Fin a) NInf = Fin 0"
| "fl_div PInf (Fin b) = (if b < 0 then NInf else PInf)"
| "fl_div NInf (Fin b) = (if b < 0 then PInf else NInf)"
| "fl_div PInf PInf = NaN"
| "fl_div PInf NInf = NaN"
| "fl_div NInf PInf = NaN"
| "fl_div NInf NInf = NaN"

text \<open>\<open>a < b\<close>; \<open>a > b\<close> is \<open>fl_lt b a\<close>.\<close>

fun fl_lt :: "npfloat \<Rightarrow> npfloat \<Rightarrow> bool" where
  "fl_lt (Fin a) (Fin b) = (a < b)"
| "fl_lt NaN _ = False"
| "fl_lt _ NaN = False"
| "fl_lt _ NInf = False"
| "fl_lt PInf _ = False"
| "fl_lt NInf _ = True"
| "fl_lt _ PInf = True"

fun fl_abs :: "npfloat \<Rightarrow> npfloat" where
  "fl_abs (Fin a) = Fin \<bar>a\<bar>"
| "fl_abs PInf = PInf"
| "fl_abs NInf = PInf"
| "fl_abs NaN = NaN"

fun fl_sqrt :: "npfloat \<Rightarrow> npfloat" where
  "fl_sqrt (Fin a) = (if a < 0 then NaN else Fin (sqrt a))"
| "fl_sqrt PInf = PInf"
| "fl_sqrt NInf = NaN"
| "fl_sqrt NaN = NaN"

text \<open>\<open>round(x, 2)\<close> of a \<open>float64\<close>: \<open>nan\<close> and the infinities are returned as they are.\<close>

fun fl_round2 :: "npfloat \<Rightarrow> npfloat" where
  "fl_round2 (Fin a) = Fin (py_round2 a)"
| "fl_round2 x = x"

text \<open>
  The builtins \<open>min(a, b)\<close> and \<open>max(a, b)\<close> of two arguments: the first argument is
  kept unless the second is strictly smaller (larger), so a \<open>nan\<close> in second place is
  dropped.
\<close>

definition py_min :: "npfloat \<Rightarrow> npfloat \<Rightarrow> npfloat" where
  "py_min a b = (if fl_lt b a then b else a)"

definition py_max :: "npfloat \<Rightarrow> npfloat \<Rightarrow> npfloat" where
  "py_max a b = (if fl_lt a b then b else a)"

section \<open>The price series and the pandas operations used\<close>

text \<open>
  One row of the DataFrame: the columns that the code reads.  The values of a fetched
  series are finite numbers.  The date index is never read.
\<close>

record row =
  Open :: real
  High :: real
  Low :: real
  Close :: real
  Volume :: real

text \<open>
  \<open>Series.pct_change()\<close>: \<open>nan\<close> in the first place, then \<open>x[i] / x[i-1] - 1\<close>.
\<close>

definition pct_change :: "real list \<Rightarrow> npfloat list" where
  "pct_change xs =
     (case xs of [] \<Rightarrow> []
      | x # rest \<Rightarrow>
          NaN # map (\<lambda>(prev, cur). fl_sub (fl_div (Fin cur) (Fin prev)) (Fin 1)) (zip xs rest))"

text \<open>
  \<open>Series.rolling(window=w).mean()\<close> on finite values: \<open>nan\<close> for the first \<open>w - 1\<close>
  places, then the mean of the \<open>w\<close> values ending at the place.
\<close>

definition rolling_mean :: "nat \<Rightarrow> real list \<Rightarrow> npfloat list" where
  "rolling_mean w xs =
     map (\<lambda>i. if i + 1 < w then NaN
               else Fin (sum_list (take w (drop (i + 1 - w) xs)) / of_nat w))
         [0 ..< length xs]"

text \<open>\<open>s.iloc[-k:]\<close>: the last \<open>k\<close> values, all of them if there are fewer.\<close>

definition iloc_last :: "nat \<Rightarrow> 'a list \<Rightarrow> 'a list" where
  "iloc_last k xs = drop (length xs - k) xs"

text \<open>
  \<open>s.iloc[-k]\<close> for \<open>1 \<le> k \<le> len(s)\<close>; every use below is behind a test of the length
  that gives this.
\<close>

definition iloc_neg :: "'a list \<Rightarrow> nat \<Rightarrow> 'a" where
  "iloc_neg xs k = xs ! (length xs - k)"

definition fl_sum :: "npfloat list \<Rightarrow> npfloat" where
  "fl_sum xs = foldl fl_add (Fin 0) xs"

text \<open>
  \<open>Series.mean()\<close>: \<open>nan\<close> values are skipped; the mean of no value is \<open>nan\<close>.
\<close>

definition series_mean :: "npfloat list \<Rightarrow> npfloat" where
  "series_mean xs =
     (let ys = filter (\<lambda>x. x \<noteq> NaN) xs in
      if ys = [] then NaN else fl_div (fl_sum ys) (Fin (of_nat (length ys))))"

text \<open>
  \<open>Series.std()\<close>: the sample standard deviation (\<open>ddof = 1\<close>) of the values that are not
  \<open>nan\<close>; \<open>nan\<close> when fewer than two are left.
\<close>

definition series_std :: "npfloat list \<Rightarrow> npfloat" where
  "series_std xs =
     (let ys = filter (\<lambda>x. x \<noteq> NaN) xs; n = length ys in
      if n \<le> 1 then NaN
      else
        let avg = fl_div (fl_sum ys) (Fin (of_nat n));
            sqr = map (\<lambda>y. fl_mul (fl_sub avg y) (fl_sub avg y)) ys
        in fl_sqrt (fl_div (fl_sum sqr) (Fin (of_nat (n - 1)))))"

text \<open>\<open>str(n)\<close> for an integer, used by the f-strings.\<close>

definition digit_char :: "nat \<Rightarrow> char" where
  "digit_char n = ''0123456789'' ! n"

function str_nat :: "nat \<Rightarrow> string" where
  "str_nat n = (if n < 10 then [digit_char n] else str_nat (n div 10) @ [digit_char (n mod 10)])"
  by pat_completeness auto
termination
  by (relation "measure id") auto

declare str_nat.simps [simp del]

definition str_int :: "int \<Rightarrow> string" where
  "str_int i = (if i < 0 then CHR ''-'' # str_nat (nat (- i)) else str_nat (nat i))"

section \<open>predictor.py: the forecasts\<close>

text \<open>A value of a result dictionary.\<close>

datatype pyval = PyNum npfloat | PyStr string

text \<open>Lines 38, 44: the mean of the last ten daily returns.\<close>

definition recent_returns_of :: "row list \<Rightarrow> npfloat" where
  "recent_returns_of df = series_mean (iloc_last 10 (pct_change (map Close df)))"

text \<open>Lines 41, 45: the mean of the last five volume ratios.\<close>

definition volume_trend_of :: "row list \<Rightarrow> npfloat" where
  "volume_trend_of df =
     series_mean (iloc_last 5
       (map (\<lambda>(v, m). fl_div (Fin v) m) (zip (map Volume df) (rolling_mean 20 (map Volume df)))))"

text \<open>Lines 48--54: the predicted change, adjusted for the volume trend.\<close>

definition predicted_change_of :: "row list \<Rightarrow> int \<Rightarrow> npfloat" where
  "predicted_change_of df days =
     (let predicted_change = fl_mul (recent_returns_of df) (Fin (of_int days));
          volume_trend = volume_trend_of df in
      if fl_lt (Fin 1.2) volume_trend then fl_mul predicted_change (Fin 1.1)
      else if fl_lt volume_trend (Fin 0.8) then fl_mul predicted_change (Fin 0.9)
      else predicted_change)"

text \<open>
  \<open>predict_short_term\<close>.  The columns \<open>ma_5\<close> and \<open>ma_20\<close> (lines 39--40) are computed
  and never read.  On a frame of finite numbers and an integer \<open>days\<close> no statement of the
  \<open>try\<close> block raises (the divisions are \<open>float64\<close> divisions), so the \<open>except\<close> clause
  has no branch here.
\<close>

definition predict_short_term :: "row list \<Rightarrow> int \<Rightarrow> (string \<rightharpoonup> pyval)" where
  "predict_short_term data days =
     (if data = [] \<or> length data < 30 then
        [''prediction'' \<mapsto> PyStr ''Insufficient data'', ''confidence'' \<mapsto> PyNum (Fin 0)]
      else
        let df = data;
            current_price = Fin (Close (last df));
            predicted_change = predicted_change_of df days;
            predicted_price = fl_mul current_price (fl_add (Fin 1) predicted_change);
            volatility = series_std (pct_change (map Close df));
            confidence =
              py_max (Fin 0) (py_min (Fin 100) (fl_sub (Fin 100) (fl_mul volatility (Fin 1000))));
            direction = (if fl_lt (Fin 0) predicted_change then ''Up'' else ''Down'');
            magnitude = fl_abs (fl_mul predicted_change (Fin 100))
        in [''current_price'' \<mapsto> PyNum (fl_round2 current_price),
            ''predicted_price'' \<mapsto> PyNum (fl_round2 predicted_price),
            ''predicted_change_pct'' \<mapsto> PyNum (fl_round2 (fl_mul predicted_change (Fin 100))),
            ''direction'' \<mapsto> PyStr direction,
            ''magnitude'' \<mapsto> PyNum (fl_round2 magnitude),
            ''confidence'' \<mapsto> PyNum (fl_round2 confidence),
            ''timeframe'' \<mapsto> PyStr (str_int days @ '' day(s)'')])"

definition predict_medium_term :: "row list \<Rightarrow> int \<Rightarrow> (string \<rightharpoonup> pyval)" where
  "predict_medium_term data weeks = predict_short_term data (weeks * 7)"

text \<open>
  Lines 114--116: the historical growth rates.  Each \<open>iloc[-k]\<close> is behind the test
  \<open>len(df) >= k\<close>.
\<close>

definition growth_since :: "real list \<Rightarrow> nat \<Rightarrow> npfloat" where
  "growth_since closes k = fl_div (Fin (last closes - iloc_neg closes k)) (Fin (iloc_neg closes k))"

definition growth_3m :: "row list \<Rightarrow> npfloat" where
  "growth_3m df = (if length df \<ge> 63 then growth_since (map Close df) 63 else Fin 0)"

definition growth_6m :: "row list \<Rightarrow> npfloat" where
  "growth_6m df = (if length df \<ge> 126 then growth_since (map Close df) 126 else growth_3m df)"

definition growth_12m :: "row list \<Rightarrow> npfloat" where
  "growth_12m df = (if length df \<ge> 252 then growth_since (map Close df) 252 else growth_6m df)"

text \<open>Lines 119--120: the weighted average of the growth rates.\<close>

definition avg_growth :: "row list \<Rightarrow> npfloat" where
  "avg_growth df =
     fl_add (fl_add (fl_mul (growth_3m df) (Fin 0.5)) (fl_mul (growth_6m df) (Fin 0.3)))
            (fl_mul (growth_12m df) (Fin 0.2))"

text \<open>
  \<open>predict_long_term\<close>, with \<open>months\<close> an integer; as for the short term, no statement of
  the \<open>try\<close> block raises on a frame of finite numbers.
\<close>

definition predict_long_term :: "row list \<Rightarrow> int \<Rightarrow> (string \<rightharpoonup> pyval)" where
  "predict_long_term data months =
     (if data = [] \<or> length data < 100 then
        [''prediction'' \<mapsto> PyStr ''Insufficient data'', ''confidence'' \<mapsto> PyNum (Fin 0)]
      else
        let df = data;
            current_price = Fin (Close (last df));
            annual_growth = fl_mul (avg_growth df) (Fin (12 / 3));
            predicted_growth = fl_mul annual_growth (Fin (of_int months / 12));
            predicted_price = fl_mul current_price (fl_add (Fin 1) predicted_growth);
            returns_std = series_std (pct_change (map Close df));
            confidence =
              fl_mul
                (py_max (Fin 0) (py_min (Fin 100) (fl_sub (Fin 100) (fl_mul returns_std (Fin 800)))))
                (Fin 0.7);
            direction = (if fl_lt (Fin 0) predicted_growth then ''Bullish'' else ''Bearish'')
        in [''current_price'' \<mapsto> PyNum (fl_round2 current_price),
            ''predicted_price'' \<mapsto> PyNum (fl_round2 predicted_price),
            ''predicted_change_pct'' \<mapsto> PyNum (fl_round2 (fl_mul predicted_growth (Fin 100))),
            ''direction'' \<mapsto> PyStr direction,
            ''confidence'' \<mapsto> PyNum (fl_round2 confidence),
            ''timeframe'' \<mapsto> PyStr (str_int months @ '' month(s)''),
            ''annual_growth_rate'' \<mapsto> PyNum (fl_round2 (fl_mul annual_growth (Fin 100)))])"


section \<open>stock\_scorer.py: the technical score\<close>

text \<open>
  The indicators RSI, MACD, Bollinger bands and ADX come from the library \<open>ta\<close>, which is
  not part of the repository: the last value of each series it returns is a parameter
  of the model, a \<open>float64\<close> (\<open>nan\<close> included).  A call of the library may raise; the
  parameter then gives the exception.
\<close>

record ta_readings =
  current_rsi :: npfloat
  macd_line :: npfloat
  signal_line :: npfloat
  bb_high :: npfloat
  bb_low :: npfloat
  bb_mid :: npfloat
  adx_value :: npfloat

text \<open>Lines 47--50: the points of the RSI block.\<close>

definition rsi_points :: "npfloat \<Rightarrow> int" where
  "rsi_points rsi =
     (if fl_lt (Fin 30) rsi \<and> fl_lt rsi (Fin 70) then 15
      else if fl_lt (Fin 40) rsi \<and> fl_lt rsi (Fin 60) then 20
      else 0)"

text \<open>Lines 60--61.\<close>

definition macd_points :: "npfloat \<Rightarrow> npfloat \<Rightarrow> int" where
  "macd_points macd sig = (if fl_lt sig macd then 15 else 0)"

text \<open>Lines 72--75.\<close>

definition ma_points :: "npfloat \<Rightarrow> npfloat \<Rightarrow> npfloat \<Rightarrow> int" where
  "ma_points price sma_20 sma_50 =
     (if fl_lt sma_20 price \<and> fl_lt sma_50 sma_20 then 25
      else if fl_lt sma_20 price then 15
      else 0)"

text \<open>Lines 86--90.\<close>

definition bb_points :: "npfloat \<Rightarrow> npfloat \<Rightarrow> npfloat \<Rightarrow> npfloat \<Rightarrow> int" where
  "bb_points price low high mid =
     (if fl_lt low price \<and> fl_lt price high then (if fl_lt mid price then 20 else 10)
      else 0)"

text \<open>Lines 98--99.\<close>

definition volume_points :: "npfloat \<Rightarrow> npfloat \<Rightarrow> int" where
  "volume_points current_volume avg_volume = (if fl_lt avg_volume current_volume then 10 else 0)"

text \<open>Lines 107--108.\<close>

definition adx_points :: "npfloat \<Rightarrow> int" where
  "adx_points adx = (if fl_lt (Fin 25) adx then 10 else 0)"

record tech_result =
  tech_score :: real
  indicators :: "string \<rightharpoonup> npfloat"

text \<open>
  \<open>calculate_technical_score\<close>.  With at least 50 rows every \<open>iloc[-1]\<close> is in range;
  the arithmetic is on \<open>float64\<close> values and does not raise, so the only exceptions that
  reach the \<open>except\<close> clause are those of the library.
\<close>

definition calculate_technical_score ::
  "(row list \<Rightarrow> py_error + ta_readings) \<Rightarrow> row list \<Rightarrow> tech_result" where
  "calculate_technical_score ta data =
     (if data = [] \<or> length data < 50 then \<lparr> tech_score = 50.0, indicators = Map.empty \<rparr>
      else
        case ta data of
          Inl e \<Rightarrow> \<lparr> tech_score = 50.0, indicators = Map.empty \<rparr>
        | Inr rd \<Rightarrow>
            let df = data;
                sma_20 = last (rolling_mean 20 (map Close df));
                sma_50 = last (rolling_mean 50 (map Close df));
                current_price = Fin (Close (last df));
                avg_volume = last (rolling_mean 20 (map Volume df));
                current_volume = Fin (Volume (last df));
                score =
                  rsi_points (current_rsi rd)
                  + macd_points (macd_line rd) (signal_line rd)
                  + ma_points current_price sma_20 sma_50
                  + bb_points current_price (bb_low rd) (bb_high rd) (bb_mid rd)
                  + volume_points current_volume avg_volume
                  + adx_points (adx_value rd);
                max_score = (20 + 15 + 25 + 20 + 10 + 10 :: int);
                final_score =
                  (if max_score > 0 then (of_int score / of_int max_score) * 100 else 50)
            in \<lparr> tech_score = py_round2 final_score,
                 indicators =
                   [''rsi'' \<mapsto> fl_round2 (current_rsi rd),
                    ''macd'' \<mapsto> fl_round2 (macd_line rd),
                    ''macd_signal'' \<mapsto> fl_round2 (signal_line rd),
                    ''sma_20'' \<mapsto> fl_round2 sma_20,
                    ''sma_50'' \<mapsto> fl_round2 sma_50,
                    ''bb_position'' \<mapsto>
                       fl_round2 (fl_mul (fl_div (fl_sub current_price (bb_low rd))
                                                 (fl_sub (bb_high rd) (bb_low rd))) (Fin 100)),
                    ''volume_ratio'' \<mapsto> fl_round2 (fl_div current_volume avg_volume),
                    ''adx'' \<mapsto> fl_round2 (adx_value rd)] \<rparr>)"


section \<open>Properties of the rounding\<close>

lemma round_half_even_bounds: "\<bar>of_int (round_half_even x) - x\<bar> \<le> 1 / 2"
  unfolding round_half_even_def Let_def by (auto; linarith)

lemma py_round2_close: "\<bar>py_round2 x - x\<bar> \<le> 0.005"
proof -
  have "\<bar>of_int (round_half_even (x * 100)) - x * 100\<bar> \<le> 1 / 2"
    by (rule round_half_even_bounds)
  then show ?thesis unfolding py_round2_def by (simp add: field_simps abs_le_iff)
qed

lemma round_half_even_ge: "of_int n \<le> x \<Longrightarrow> n \<le> round_half_even x"
  unfolding round_half_even_def Let_def by (auto simp: le_floor_iff; linarith)

lemma round_half_even_le: "x \<le> of_int n \<Longrightarrow> round_half_even x \<le> n"
  unfolding round_half_even_def Let_def by (auto simp: floor_le_iff; linarith)

lemma py_round2_ge:
  assumes "of_int n / 100 \<le> x"
  shows "of_int n / 100 \<le> py_round2 x"
proof -
  from assms have "of_int n \<le> x * 100" by (simp add: field_simps)
  then have "n \<le> round_half_even (x * 100)" by (rule round_half_even_ge)
  then have "(of_int n :: real) \<le> of_int (round_half_even (x * 100))" by simp
  then show ?thesis unfolding py_round2_def by (simp add: divide_right_mono)
qed

lemma py_round2_le:
  assumes "x \<le> of_int n / 100"
  shows "py_round2 x \<le> of_int n / 100"
proof -
  from assms have "x * 100 \<le> of_int n" by (simp add: field_simps)
  then have "round_half_even (x * 100) \<le> n" by (rule round_half_even_le)
  then have "(of_int (round_half_even (x * 100)) :: real) \<le> of_int n" by simp
  then show ?thesis unfolding py_round2_def by (simp add: divide_right_mono)
qed

lemma py_round2_range: "0 \<le> x \<Longrightarrow> x \<le> 100 \<Longrightarrow> 0 \<le> py_round2 x \<and> py_round2 x \<le> 100"
  using py_round2_ge [of 0 x] py_round2_le [of x 10000] by simp

section \<open>Target price and stop loss\<close>

lemmas target_defs = calculate_target_price_def target_price_body_def risk_reward_of_def
  float_div_def stop_loss_of_def upside_of_def target_price_of_def

lemma stop_ratio:
  "cp \<noteq> 0 \<Longrightarrow>
     stop_loss_of cp sc / cp = (if sc \<ge> 70 then 0.92 else if sc \<ge> 50 then 0.90 else 0.85)"
  by (simp add: stop_loss_of_def)

lemma risk_reward_of_nonzero:
  "cp \<noteq> 0 \<Longrightarrow> risk_reward_of cp sc = Inr (upside_of sc / (1 - stop_loss_of cp sc / cp))"
  by (simp add: risk_reward_of_def float_div_def stop_ratio)

lemma risk_reward_value_pos: "cp \<noteq> 0 \<Longrightarrow> 0 < upside_of sc / (1 - stop_loss_of cp sc / cp)"
  by (simp add: stop_ratio upside_of_def)

lemma target_price_body_nonzero:
  "cp \<noteq> 0 \<Longrightarrow> target_price_body cp sc =
     Inr [''target_price'' \<mapsto> py_round2 (cp * (1 + upside_of sc)),
          ''stop_loss'' \<mapsto> py_round2 (stop_loss_of cp sc),
          ''upside_potential'' \<mapsto> py_round2 (upside_of sc * 100),
          ''downside_risk'' \<mapsto> py_round2 ((1 - stop_loss_of cp sc / cp) * 100),
          ''risk_reward_ratio'' \<mapsto> py_round2 (upside_of sc / (1 - stop_loss_of cp sc / cp))]"
  by (simp add: target_price_body_def risk_reward_of_nonzero target_price_of_def float_div_def Let_def)

lemma target_price_body_zero: "target_price_body 0 sc = Inl ZeroDivisionError"
  by (simp add: target_price_body_def risk_reward_of_def float_div_def Let_def)

text \<open>
  Claim C2, as stated: for every \<open>current_price \<le> 0\<close> the call raises an error to the
  caller.  It fails: at \<open>current_price = -100\<close>, \<open>score = 60\<close> the call returns an ordinary
  result dictionary (with a negative target price).
\<close>

theorem target_price_negative_price_returns:
  "calculate_target_price (- 100) 60 =
     Inr [''target_price'' \<mapsto> - 110, ''stop_loss'' \<mapsto> - 90, ''upside_potential'' \<mapsto> 10,
          ''downside_risk'' \<mapsto> 10, ''risk_reward_ratio'' \<mapsto> 1]"
  by (simp add: target_defs py_round2_def round_half_even_def Let_def)

text \<open>
  Claim C2, amended: \<open>calculate_target_price\<close> has no guard on \<open>current_price\<close> and never
  raises to its caller.  For \<open>current_price = 0\<close> the \<open>ZeroDivisionError\<close> of line 257 is
  caught and the empty dictionary is returned; for \<open>current_price < 0\<close> the ordinary result
  is returned, computed by the same formulas as for a positive price.
\<close>

theorem target_price_never_raises:
  assumes "current_price \<le> 0"
  shows "(\<forall>e. calculate_target_price current_price sc \<noteq> Inl e)
    \<and> (current_price = 0 \<longrightarrow> calculate_target_price current_price sc = Inr Map.empty)
    \<and> (current_price < 0 \<longrightarrow> calculate_target_price current_price sc =
         Inr [''target_price'' \<mapsto> py_round2 (current_price * (1 + upside_of sc)),
              ''stop_loss'' \<mapsto> py_round2 (stop_loss_of current_price sc),
              ''upside_potential'' \<mapsto> py_round2 (upside_of sc * 100),
              ''downside_risk'' \<mapsto>
                 py_round2 ((1 - stop_loss_of current_price sc / current_price) * 100),
              ''risk_reward_ratio'' \<mapsto>
                 py_round2 (upside_of sc / (1 - stop_loss_of current_price sc / current_price))])"
proof (intro conjI impI allI)
  fix e show "calculate_target_price current_price sc \<noteq> Inl e"
    by (simp add: calculate_target_price_def split: sum.splits)
next
  assume "current_price = 0"
  then show "calculate_target_price current_price sc = Inr Map.empty"
    by (simp add: calculate_target_price_def target_price_body_zero)
next
  assume "current_price < 0"
  then have "current_price \<noteq> 0" by simp
  then show "calculate_target_price current_price sc =
         Inr [''target_price'' \<mapsto> py_round2 (current_price * (1 + upside_of sc)),
              ''stop_loss'' \<mapsto> py_round2 (stop_loss_of current_price sc),
              ''upside_potential'' \<mapsto> py_round2 (upside_of sc * 100),
              ''downside_risk'' \<mapsto>
                 py_round2 ((1 - stop_loss_of current_price sc / current_price) * 100),
              ''risk_reward_ratio'' \<mapsto>
                 py_round2 (upside_of sc / (1 - stop_loss_of current_price sc / current_price))]"
    by (simp add: calculate_target_price_def target_price_body_nonzero)
qed

theorem target_price_never_raises_witness:
  "(0::real) \<le> 0 \<and> calculate_target_price 0 85 = Inr Map.empty
   \<and> (\<forall>e. calculate_target_price 0 85 \<noteq> Inl e)
   \<and> (- 50 :: real) < 0
   \<and> calculate_target_price (- 50) 40 =
         Inr [''target_price'' \<mapsto> py_round2 (- 50 * (1 + upside_of 40)),
              ''stop_loss'' \<mapsto> py_round2 (stop_loss_of (- 50) 40),
              ''upside_potential'' \<mapsto> py_round2 (upside_of 40 * 100),
              ''downside_risk'' \<mapsto> py_round2 ((1 - stop_loss_of (- 50) 40 / (- 50)) * 100),
              ''risk_reward_ratio'' \<mapsto>
                 py_round2 (upside_of 40 / (1 - stop_loss_of (- 50) 40 / (- 50)))]"
  using target_price_never_raises [of 0 85] target_price_never_raises [of "- 50" 40]
  by simp

lemma target_price_100_85:
  "calculate_target_price 100 85 =
     Inr [''target_price'' \<mapsto> 125, ''stop_loss'' \<mapsto> 92, ''upside_potential'' \<mapsto> 25,
          ''downside_risk'' \<mapsto> 8, ''risk_reward_ratio'' \<mapsto> 78 / 25]"
  by (simp add: target_defs py_round2_def round_half_even_def Let_def)

text \<open>
  Claim C6: with \<open>current_price = 100\<close> and \<open>score = 85\<close> the result has
  \<open>target_price = 125.00\<close>, \<open>stop_loss = 92.00\<close>, upside potential \<open>25.0\<close>, downside risk
  \<open>8.0\<close> and a risk/reward ratio of about \<open>3.125\<close>: the ratio before rounding is exactly
  \<open>3.125\<close>, the reported one is within \<open>0.005\<close> of it.  (The exact ratio lies half way
  between two multiples of \<open>0.01\<close>, so the last digit reported by the floating-point code
  is decided by its binary rounding error; the bound does not depend on it.)
\<close>

theorem target_price_100_85_values:
  "\<exists>d r. calculate_target_price 100 85 = Inr d
     \<and> d ''target_price'' = Some 125 \<and> d ''stop_loss'' = Some 92
     \<and> d ''upside_potential'' = Some 25 \<and> d ''downside_risk'' = Some 8
     \<and> d ''risk_reward_ratio'' = Some r \<and> \<bar>r - 3.125\<bar> \<le> 0.005
     \<and> risk_reward_of 100 85 = Inr 3.125"
proof -
  have rr: "risk_reward_of 100 85 = Inr 3.125"
    by (simp add: risk_reward_of_def float_div_def stop_loss_of_def upside_of_def)
  show ?thesis
    unfolding target_price_100_85 rr
    by (intro exI [of _ "[''target_price'' \<mapsto> 125, ''stop_loss'' \<mapsto> 92,
          ''upside_potential'' \<mapsto> 25, ''downside_risk'' \<mapsto> 8,
          ''risk_reward_ratio'' \<mapsto> 78 / 25]"] exI [of _ "78 / 25"]) simp
qed

text \<open>
  Claim C9: for every \<open>current_price > 0\<close> and every score, the unrounded values satisfy
  \<open>stop_loss < current_price < target_price\<close>, the upside multiplier is one of 1.05, 1.10,
  1.15, 1.25, the stop-loss multiplier one of 0.85, 0.90, 0.92, and the risk/reward ratio
  is strictly positive (before rounding, and also as reported after rounding).
\<close>

theorem target_price_ordering:
  assumes "0 < current_price"
  shows "stop_loss_of current_price sc < current_price
    \<and> current_price < target_price_of current_price sc
    \<and> target_price_of current_price sc / current_price \<in> {1.05, 1.10, 1.15, 1.25}
    \<and> stop_loss_of current_price sc / current_price \<in> {0.85, 0.90, 0.92}
    \<and> (\<exists>r. risk_reward_of current_price sc = Inr r \<and> 0 < r)
    \<and> (\<exists>d r. calculate_target_price current_price sc = Inr d
          \<and> d ''risk_reward_ratio'' = Some r \<and> 0 < r)"
proof -
  from assms have nz: "current_price \<noteq> 0" by simp
  have 1: "stop_loss_of current_price sc < current_price"
    using assms by (simp add: stop_loss_of_def)
  have 2: "current_price < target_price_of current_price sc"
    using assms by (simp add: target_price_of_def upside_of_def)
  have 3: "target_price_of current_price sc / current_price \<in> {1.05, 1.10, 1.15, 1.25}"
    using nz by (simp add: target_price_of_def upside_of_def)
  have 4: "stop_loss_of current_price sc / current_price \<in> {0.85, 0.90, 0.92}"
    using nz by (simp add: stop_ratio)
  have 5: "\<exists>r. risk_reward_of current_price sc = Inr r \<and> 0 < r"
    using nz by (simp add: risk_reward_of_nonzero risk_reward_value_pos)
  have "of_int 25 / 100 \<le> upside_of sc / (1 - stop_loss_of current_price sc / current_price)"
    using nz by (simp add: stop_ratio upside_of_def)
  from py_round2_ge [OF this]
  have "0 < py_round2 (upside_of sc / (1 - stop_loss_of current_price sc / current_price))"
    by simp
  then have 6: "\<exists>d r. calculate_target_price current_price sc = Inr d
          \<and> d ''risk_reward_ratio'' = Some r \<and> 0 < r"
    using nz by (simp add: calculate_target_price_def target_price_body_nonzero)
  from 1 2 3 4 5 6 show ?thesis by blast
qed

theorem target_price_ordering_witness:
  "(0::real) < 100 \<and> stop_loss_of 100 85 < 100 \<and> 100 < target_price_of 100 85
    \<and> (\<exists>r. risk_reward_of 100 85 = Inr r \<and> 0 < r)"
  using target_price_ordering [of 100 85] by simp


section \<open>The overall score\<close>

lemma overall_value_eq:
  "overall_value t f s m =
     dict_get t ''score'' 50 * 0.35 + dict_get f ''score'' 50 * 0.35
     + dict_get s ''overall_sentiment_score'' 50 * 0.20 + dict_get m ''score'' 50 * 0.10"
  by (simp add: overall_value_def weights_def)

lemma overall_value_const:
  "overall_value [''score'' \<mapsto> v] [''score'' \<mapsto> v]
     [''overall_sentiment_score'' \<mapsto> v] [''score'' \<mapsto> v] = v"
  by (simp add: overall_value_eq dict_get_def)

lemma overall_sel:
  "overall_score (calculate_overall_score t f s m) = py_round2 (overall_value t f s m)"
  "rating (calculate_overall_score t f s m) = fst (rating_of (overall_value t f s m))"
  "stars (calculate_overall_score t f s m) = snd (rating_of (overall_value t f s m))"
  by (simp_all add: calculate_overall_score_def Let_def)

text \<open>
  Claim C3, as stated: an overall value of exactly 34.99 is rated \<open>Sell\<close> with 2 stars.
  It fails: four component scores of 34.99 give the overall value 34.99, which is below
  the threshold 35 of line 353 and is rated \<open>Strong Sell\<close> with 1 star.
\<close>

theorem rating_34_99_is_strong_sell:
  "overall_value [''score'' \<mapsto> 34.99] [''score'' \<mapsto> 34.99]
      [''overall_sentiment_score'' \<mapsto> 34.99] [''score'' \<mapsto> 34.99] = 34.99
   \<and> rating (calculate_overall_score [''score'' \<mapsto> 34.99] [''score'' \<mapsto> 34.99]
        [''overall_sentiment_score'' \<mapsto> 34.99] [''score'' \<mapsto> 34.99]) = ''Strong Sell''
   \<and> rating (calculate_overall_score [''score'' \<mapsto> 34.99] [''score'' \<mapsto> 34.99]
        [''overall_sentiment_score'' \<mapsto> 34.99] [''score'' \<mapsto> 34.99]) \<noteq> ''Sell''
   \<and> stars (calculate_overall_score [''score'' \<mapsto> 34.99] [''score'' \<mapsto> 34.99]
        [''overall_sentiment_score'' \<mapsto> 34.99] [''score'' \<mapsto> 34.99]) = 1"
  by (simp add: overall_sel overall_value_const rating_of_def)

text \<open>
  Claim C3, amended: the rating boundaries are closed below.  An overall value of exactly
  80.0 is rated \<open>Strong Buy\<close> with 5 stars, exactly 79.99 \<open>Buy\<close> with 4 stars, exactly 50.0
  \<open>Hold\<close> with 3 stars, exactly 35.0 \<open>Sell\<close> with 2 stars, and exactly 34.99
  \<open>Strong Sell\<close> with 1 star.
\<close>

theorem rating_boundaries:
  "(overall_value t f s m = 80 \<longrightarrow>
      rating (calculate_overall_score t f s m) = ''Strong Buy''
      \<and> stars (calculate_overall_score t f s m) = 5)
   \<and> (overall_value t f s m = 79.99 \<longrightarrow>
      rating (calculate_overall_score t f s m) = ''Buy''
      \<and> stars (calculate_overall_score t f s m) = 4)
   \<and> (overall_value t f s m = 50 \<longrightarrow>
      rating (calculate_overall_score t f s m) = ''Hold''
      \<and> stars (calculate_overall_score t f s m) = 3)
   \<and> (overall_value t f s m = 35 \<longrightarrow>
      rating (calculate_overall_score t f s m) = ''Sell''
      \<and> stars (calculate_overall_score t f s m) = 2)
   \<and> (overall_value t f s m = 34.99 \<longrightarrow>
      rating (calculate_overall_score t f s m) = ''Strong Sell''
      \<and> stars (calculate_overall_score t f s m) = 1)"
  by (simp add: overall_sel rating_of_def)

theorem rating_boundaries_witness:
  "rating (calculate_overall_score [''score'' \<mapsto> 80] [''score'' \<mapsto> 80]
      [''overall_sentiment_score'' \<mapsto> 80] [''score'' \<mapsto> 80]) = ''Strong Buy''
   \<and> stars (calculate_overall_score [''score'' \<mapsto> 80] [''score'' \<mapsto> 80]
      [''overall_sentiment_score'' \<mapsto> 80] [''score'' \<mapsto> 80]) = 5
   \<and> rating (calculate_overall_score [''score'' \<mapsto> 79.99] [''score'' \<mapsto> 79.99]
      [''overall_sentiment_score'' \<mapsto> 79.99] [''score'' \<mapsto> 79.99]) = ''Buy''
   \<and> stars (calculate_overall_score [''score'' \<mapsto> 79.99] [''score'' \<mapsto> 79.99]
      [''overall_sentiment_score'' \<mapsto> 79.99] [''score'' \<mapsto> 79.99]) = 4
   \<and> rating (calculate_overall_score [''score'' \<mapsto> 50] [''score'' \<mapsto> 50]
      [''overall_sentiment_score'' \<mapsto> 50] [''score'' \<mapsto> 50]) = ''Hold''
   \<and> stars (calculate_overall_score [''score'' \<mapsto> 50] [''score'' \<mapsto> 50]
      [''overall_sentiment_score'' \<mapsto> 50] [''score'' \<mapsto> 50]) = 3
   \<and> rating (calculate_overall_score [''score'' \<mapsto> 35] [''score'' \<mapsto> 35]
      [''overall_sentiment_score'' \<mapsto> 35] [''score'' \<mapsto> 35]) = ''Sell''
   \<and> stars (calculate_overall_score [''score'' \<mapsto> 35] [''score'' \<mapsto> 35]
      [''overall_sentiment_score'' \<mapsto> 35] [''score'' \<mapsto> 35]) = 2
   \<and> rating (calculate_overall_score [''score'' \<mapsto> 34.99] [''score'' \<mapsto> 34.99]
      [''overall_sentiment_score'' \<mapsto> 34.99] [''score'' \<mapsto> 34.99]) = ''Strong Sell''
   \<and> stars (calculate_overall_score [''score'' \<mapsto> 34.99] [''score'' \<mapsto> 34.99]
      [''overall_sentiment_score'' \<mapsto> 34.99] [''score'' \<mapsto> 34.99]) = 1"
  using
    rating_boundaries [of "[''score'' \<mapsto> 80]" "[''score'' \<mapsto> 80]"
      "[''overall_sentiment_score'' \<mapsto> 80]" "[''score'' \<mapsto> 80]"]
    rating_boundaries [of "[''score'' \<mapsto> 79.99]" "[''score'' \<mapsto> 79.99]"
      "[''overall_sentiment_score'' \<mapsto> 79.99]" "[''score'' \<mapsto> 79.99]"]
    rating_boundaries [of "[''score'' \<mapsto> 50]" "[''score'' \<mapsto> 50]"
      "[''overall_sentiment_score'' \<mapsto> 50]" "[''score'' \<mapsto> 50]"]
    rating_boundaries [of "[''score'' \<mapsto> 35]" "[''score'' \<mapsto> 35]"
      "[''overall_sentiment_score'' \<mapsto> 35]" "[''score'' \<mapsto> 35]"]
    rating_boundaries [of "[''score'' \<mapsto> 34.99]" "[''score'' \<mapsto> 34.99]"
      "[''overall_sentiment_score'' \<mapsto> 34.99]" "[''score'' \<mapsto> 34.99]"]
  unfolding overall_value_const by simp

text \<open>
  Claim C4, as stated: the returned overall value equals \<open>0.35 T + 0.35 F + 0.20 S + 0.10 M\<close>.
  It fails: the function returns \<open>round(overall, 2)\<close> (line 361).  With
  \<open>T = F = M = 50\<close> and \<open>S = 50.01\<close> the weighted sum is 50.002 and the returned value is
  50.0.
\<close>

theorem overall_score_is_not_the_exact_blend:
  "overall_score (calculate_overall_score [''score'' \<mapsto> 50] [''score'' \<mapsto> 50]
       [''overall_sentiment_score'' \<mapsto> 50.01] [''score'' \<mapsto> 50]) = 50
   \<and> overall_score (calculate_overall_score [''score'' \<mapsto> 50] [''score'' \<mapsto> 50]
       [''overall_sentiment_score'' \<mapsto> 50.01] [''score'' \<mapsto> 50])
      \<noteq> 0.35 * 50 + 0.35 * 50 + 0.20 * 50.01 + 0.10 * 50"
  by (simp add: overall_sel overall_value_eq dict_get_def py_round2_def
      round_half_even_def Let_def)

text \<open>
  Claim C4, amended: for all component scores \<open>T, F, S, M\<close> in \<open>[0,100]\<close> the weighted
  sum computed by \<open>calculate_overall_score\<close> is \<open>0.35 T + 0.35 F + 0.20 S + 0.10 M\<close>, and
  the returned overall value is that sum rounded to two decimals: it differs from the sum
  by at most 0.005 and always lies in \<open>[0,100]\<close>.
\<close>

theorem overall_score_rounded_blend:
  assumes "technical ''score'' = Some T" and "fundamental ''score'' = Some F"
    and "sentiment ''overall_sentiment_score'' = Some S" and "momentum ''score'' = Some M"
    and "0 \<le> T" "T \<le> 100" "0 \<le> F" "F \<le> 100" "0 \<le> S" "S \<le> 100" "0 \<le> M" "M \<le> 100"
  shows "overall_value technical fundamental sentiment momentum
           = 0.35 * T + 0.35 * F + 0.20 * S + 0.10 * M
    \<and> overall_score (calculate_overall_score technical fundamental sentiment momentum)
           = py_round2 (0.35 * T + 0.35 * F + 0.20 * S + 0.10 * M)
    \<and> \<bar>overall_score (calculate_overall_score technical fundamental sentiment momentum)
           - (0.35 * T + 0.35 * F + 0.20 * S + 0.10 * M)\<bar> \<le> 0.005
    \<and> 0 \<le> overall_score (calculate_overall_score technical fundamental sentiment momentum)
    \<and> overall_score (calculate_overall_score technical fundamental sentiment momentum) \<le> 100"
proof -
  let ?v = "0.35 * T + 0.35 * F + 0.20 * S + 0.10 * M"
  have v: "overall_value technical fundamental sentiment momentum = ?v"
    using assms(1-4) by (simp add: overall_value_eq dict_get_def)
  have r: "overall_score (calculate_overall_score technical fundamental sentiment momentum)
             = py_round2 ?v"
    by (simp add: overall_sel v)
  have "0 \<le> ?v" using assms(5-12) by simp
  moreover have "?v \<le> 100" using assms(5-12) by simp
  ultimately have "0 \<le> py_round2 ?v \<and> py_round2 ?v \<le> 100"
    by (rule py_round2_range)
  with v r py_round2_close [of ?v] show ?thesis by simp
qed

theorem overall_score_rounded_blend_witness:
  "overall_value [''score'' \<mapsto> 50] [''score'' \<mapsto> 50]
       [''overall_sentiment_score'' \<mapsto> 50.01] [''score'' \<mapsto> 50] = 50.002
   \<and> overall_score (calculate_overall_score [''score'' \<mapsto> 50] [''score'' \<mapsto> 50]
       [''overall_sentiment_score'' \<mapsto> 50.01] [''score'' \<mapsto> 50]) = py_round2 50.002
   \<and> 0 \<le> overall_score (calculate_overall_score [''score'' \<mapsto> 50] [''score'' \<mapsto> 50]
       [''overall_sentiment_score'' \<mapsto> 50.01] [''score'' \<mapsto> 50])"
  using overall_score_rounded_blend [of "[''score'' \<mapsto> 50]" 50 "[''score'' \<mapsto> 50]" 50
       "[''overall_sentiment_score'' \<mapsto> 50.01]" "50.01" "[''score'' \<mapsto> 50]" 50]
  by simp

section \<open>The fundamental score\<close>

lemma blocks_None [simp]:
  "pe_block None st = st" "peg_block None st = st" "pb_block None st = st"
  "de_block None st = st" "roe_block None st = st" "margin_block None st = st"
  "rev_growth_block None st = st" "div_yield_block None st = st" "beta_block None st = st"
  by (simp_all add: pe_block_def peg_block_def pb_block_def de_block_def roe_block_def
      margin_block_def rev_growth_block_def div_yield_block_def beta_block_def split: prod.splits)

lemma blocks_zero [simp]:
  "pe_block (Some 0) st = st" "peg_block (Some 0) st = st" "pb_block (Some 0) st = st"
  "roe_block (Some 0) st = st" "margin_block (Some 0) st = st"
  "rev_growth_block (Some 0) st = st" "div_yield_block (Some 0) st = st"
  "beta_block (Some 0) st = st"
  by (simp_all add: pe_block_def peg_block_def pb_block_def roe_block_def truthy_def
      margin_block_def rev_growth_block_def div_yield_block_def beta_block_def split: prod.splits)

lemma metrics_get_filter:
  "metrics_get (filter (\<lambda>p. fst p \<noteq> k) metrics) k' =
     (if k' = k then None else metrics_get metrics k')"
  by (induction metrics) (auto simp: metrics_get_def)

lemma metrics_get_nonempty: "metrics_get metrics k = Some v \<Longrightarrow> metrics \<noteq> []"
  by (auto simp: metrics_get_def)

lemma calculate_fundamental_score_blocks:
  "metrics \<noteq> [] \<Longrightarrow> calculate_fundamental_score metrics =
     \<lparr> fund_score = py_round2 (of_int (fst (fund_blocks (metrics_get metrics))) / 100 * 100),
       analysis = snd (fund_blocks (metrics_get metrics)) \<rparr>"
  by (simp add: calculate_fundamental_score_def fund_blocks_def Let_def)

lemma fund_blocks_zero_absent:
  assumes "k \<in> {''pe_ratio'', ''peg_ratio'', ''price_to_book'', ''roe'', ''profit_margin'',
                 ''revenue_growth'', ''dividend_yield'', ''beta''}"
    and "g k = Some 0"
  shows "fund_blocks g = fund_blocks (\<lambda>k'. if k' = k then None else g k')"
  using assms unfolding fund_blocks_def by auto

lemma blocks_dom_present:
  "dom (snd (pe_block v st)) \<subseteq> dom (snd st) \<union> (if v = None then {} else {''pe_ratio''})"
  "dom (snd (peg_block v st)) \<subseteq> dom (snd st) \<union> (if v = None then {} else {''peg_ratio''})"
  "dom (snd (pb_block v st)) \<subseteq> dom (snd st) \<union> (if v = None then {} else {''price_to_book''})"
  "dom (snd (de_block v st)) \<subseteq> dom (snd st) \<union> (if v = None then {} else {''debt_to_equity''})"
  "dom (snd (roe_block v st)) \<subseteq> dom (snd st) \<union> (if v = None then {} else {''roe''})"
  "dom (snd (margin_block v st)) \<subseteq> dom (snd st) \<union> (if v = None then {} else {''profit_margin''})"
  "dom (snd (rev_growth_block v st))
     \<subseteq> dom (snd st) \<union> (if v = None then {} else {''revenue_growth''})"
  "dom (snd (div_yield_block v st))
     \<subseteq> dom (snd st) \<union> (if v = None then {} else {''dividend_yield''})"
  "dom (snd (beta_block v st)) \<subseteq> dom (snd st) \<union> (if v = None then {} else {''beta''})"
  by (auto simp: pe_block_def peg_block_def pb_block_def de_block_def roe_block_def
      margin_block_def rev_growth_block_def div_yield_block_def beta_block_def
      split: prod.splits option.splits if_splits)

lemma fund_blocks_dom: "dom (snd (fund_blocks g)) \<subseteq> {k. g k \<noteq> None}"
proof -
  have step: "\<And>A B (C::string set) k. A \<subseteq> B \<union> (if g k = None then {} else {k}) \<Longrightarrow> B \<subseteq> C
      \<Longrightarrow> C = {k. g k \<noteq> None} \<Longrightarrow> A \<subseteq> C"
    by (auto split: if_splits)
  show ?thesis
    unfolding fund_blocks_def
    apply (rule step [OF blocks_dom_present(9)])
     apply (rule step [OF blocks_dom_present(8)])
      apply (rule step [OF blocks_dom_present(7)])
       apply (rule step [OF blocks_dom_present(6)])
        apply (rule step [OF blocks_dom_present(5)])
         apply (rule step [OF blocks_dom_present(4)])
          apply (rule step [OF blocks_dom_present(3)])
           apply (rule step [OF blocks_dom_present(2)])
            apply (rule step [OF blocks_dom_present(1)])
             apply simp_all
    done
qed

text \<open>
  Claim C10: in the fundamental scorer a metric that is present with value exactly 0 is
  treated as absent, for every scored metric except \<open>debt_to_equity\<close>: it is not recorded
  in the analysis, and the result is the one obtained with the value \<open>None\<close> for that
  metric, or with the entry removed from a dictionary that stays non-empty.
  \<open>debt_to_equity\<close> is tested against \<open>None\<close> only: the dictionary
  \<open>{debt_to_equity: 0.0}\<close> yields the score 10.0, with \<open>debt_to_equity\<close> recorded in the
  analysis.
\<close>

theorem fundamental_zero_is_absent:
  "(k \<in> {''pe_ratio'', ''peg_ratio'', ''price_to_book'', ''roe'', ''profit_margin'',
          ''revenue_growth'', ''dividend_yield'', ''beta''}
      \<and> metrics_get metrics k = Some 0 \<longrightarrow>
        k \<notin> dom (analysis (calculate_fundamental_score metrics))
        \<and> calculate_fundamental_score metrics = calculate_fundamental_score ((k, None) # metrics)
        \<and> (filter (\<lambda>p. fst p \<noteq> k) metrics \<noteq> [] \<longrightarrow>
             calculate_fundamental_score metrics =
             calculate_fundamental_score (filter (\<lambda>p. fst p \<noteq> k) metrics)))
   \<and> calculate_fundamental_score [(''debt_to_equity'', Some 0)] =
         \<lparr> fund_score = 10, analysis = [''debt_to_equity'' \<mapsto> 0] \<rparr>"
proof (intro conjI impI; (elim conjE)?)
  assume k: "k \<in> {''pe_ratio'', ''peg_ratio'', ''price_to_book'', ''roe'', ''profit_margin'',
                 ''revenue_growth'', ''dividend_yield'', ''beta''}"
    and zero: "metrics_get metrics k = Some 0"
  let ?g' = "\<lambda>k'. if k' = k then None else metrics_get metrics k'"
  have ne: "metrics \<noteq> []" using zero by (rule metrics_get_nonempty)
  have blocks: "fund_blocks (metrics_get metrics) = fund_blocks ?g'"
    using k zero by (rule fund_blocks_zero_absent)
  have "k \<notin> dom (snd (fund_blocks ?g'))"
    using fund_blocks_dom [of ?g'] by auto
  then show "k \<notin> dom (analysis (calculate_fundamental_score metrics))"
    by (simp add: calculate_fundamental_score_blocks [OF ne] blocks)
  have "metrics_get ((k, None) # metrics) = ?g'"
    by (auto simp: metrics_get_def)
  then show "calculate_fundamental_score metrics
                = calculate_fundamental_score ((k, None) # metrics)"
    by (simp add: calculate_fundamental_score_blocks ne blocks)
  have g: "metrics_get (filter (\<lambda>p. fst p \<noteq> k) metrics) = ?g'"
    by (rule ext) (simp add: metrics_get_filter)
  assume "filter (\<lambda>p. fst p \<noteq> k) metrics \<noteq> []"
  with g show "calculate_fundamental_score metrics =
         calculate_fundamental_score (filter (\<lambda>p. fst p \<noteq> k) metrics)"
    by (simp add: calculate_fundamental_score_blocks ne blocks)
next
  show "calculate_fundamental_score [(''debt_to_equity'', Some 0)] =
         \<lparr> fund_score = 10, analysis = [''debt_to_equity'' \<mapsto> 0] \<rparr>"
    by (simp add: calculate_fundamental_score_def metrics_get_def de_block_def Let_def
        py_round2_def round_half_even_def)
qed

theorem fundamental_zero_is_absent_witness:
  "metrics_get [(''roe'', Some 0), (''debt_to_equity'', Some 0)] ''roe'' = Some 0
   \<and> calculate_fundamental_score [(''roe'', Some 0), (''debt_to_equity'', Some 0)]
       = calculate_fundamental_score [(''debt_to_equity'', Some 0)]
   \<and> ''roe'' \<notin> dom (analysis (calculate_fundamental_score
        [(''roe'', Some 0), (''debt_to_equity'', Some 0)]))"
proof -
  let ?m = "[(''roe'', Some 0), (''debt_to_equity'', Some (0::real))]"
  have k: "''roe'' \<in> {''pe_ratio'', ''peg_ratio'', ''price_to_book'', ''roe'', ''profit_margin'',
                 ''revenue_growth'', ''dividend_yield'', ''beta''}"
    by simp
  have z: "metrics_get ?m ''roe'' = Some 0"
    by (simp add: metrics_get_def)
  have f: "filter (\<lambda>p. fst p \<noteq> ''roe'') ?m = [(''debt_to_equity'', Some 0)]"
    by simp
  from fundamental_zero_is_absent [of "''roe''" ?m] k z
  have a: "''roe'' \<notin> dom (analysis (calculate_fundamental_score ?m))"
    and b: "filter (\<lambda>p. fst p \<noteq> ''roe'') ?m \<noteq> [] \<longrightarrow>
         calculate_fundamental_score ?m =
         calculate_fundamental_score (filter (\<lambda>p. fst p \<noteq> ''roe'') ?m)"
    by blast+
  from b have "calculate_fundamental_score ?m
                 = calculate_fundamental_score [(''debt_to_equity'', Some 0)]"
    unfolding f by simp
  with a z show ?thesis by blast
qed


section \<open>The short-term and medium-term forecast\<close>

lemma closes_const:
  "\<forall>r\<in>set data. Close r = c \<Longrightarrow> map Close data = replicate (length data) c"
  by (induction data) auto

lemma zip_Cons_replicate: "zip (x # replicate n x) (replicate n y) = replicate n (x, y)"
  using zip_replicate [of "Suc n" x n y] by simp

lemma pct_change_const:
  "c \<noteq> 0 \<Longrightarrow> pct_change (c # replicate n c) = NaN # replicate n (Fin 0)"
  by (simp add: pct_change_def zip_Cons_replicate fl_sub_def)

lemma pct_change_zero: "pct_change (0 # replicate n 0) = NaN # replicate n NaN"
  by (simp add: pct_change_def zip_Cons_replicate fl_sub_def)

lemma iloc_last_Cons_replicate: "k \<le> n \<Longrightarrow> iloc_last k (x # replicate n y) = replicate k y"
  by (simp add: iloc_last_def Suc_diff_le)

lemma fl_sum_zeros: "fl_sum (replicate n (Fin 0)) = Fin 0"
  unfolding fl_sum_def by (induction n) simp_all

lemma series_mean_zeros: "0 < n \<Longrightarrow> series_mean (replicate n (Fin 0)) = Fin 0"
  by (simp add: series_mean_def fl_sum_zeros Let_def)

lemma series_mean_nans: "series_mean (replicate n NaN) = NaN"
  by (simp add: series_mean_def Let_def)

lemma recent_returns_flat:
  assumes "30 \<le> length data" and "\<forall>r\<in>set data. Close r = c" and "c \<noteq> 0"
  shows "recent_returns_of data = Fin 0"
proof -
  obtain n where n: "length data = Suc n" and "10 \<le> n"
    using assms(1) by (cases "length data") auto
  have "pct_change (map Close data) = NaN # replicate n (Fin 0)"
    using assms(3) by (simp add: closes_const [OF assms(2)] n pct_change_const)
  then show ?thesis
    using \<open>10 \<le> n\<close> by (simp add: recent_returns_of_def iloc_last_Cons_replicate series_mean_zeros)
qed

lemma recent_returns_flat_zero:
  assumes "30 \<le> length data" and "\<forall>r\<in>set data. Close r = 0"
  shows "recent_returns_of data = NaN"
proof -
  obtain n where n: "length data = Suc n" and "10 \<le> n"
    using assms(1) by (cases "length data") auto
  have "pct_change (map Close data) = NaN # replicate n NaN"
    by (simp add: closes_const [OF assms(2)] n pct_change_zero)
  then show ?thesis
    using \<open>10 \<le> n\<close> by (simp add: recent_returns_of_def iloc_last_Cons_replicate series_mean_nans)
qed

lemma predicted_change_flat:
  assumes "30 \<le> length data" and "\<forall>r\<in>set data. Close r = c" and "c \<noteq> 0"
  shows "predicted_change_of data days = Fin 0"
  by (simp add: predicted_change_of_def recent_returns_flat [OF assms] Let_def)

lemma predicted_change_flat_zero:
  assumes "30 \<le> length data" and "\<forall>r\<in>set data. Close r = 0"
  shows "predicted_change_of data days = NaN"
  by (simp add: predicted_change_of_def recent_returns_flat_zero [OF assms] Let_def)

lemma predict_short_term_fields:
  assumes "30 \<le> length data"
  shows "predict_short_term data days ''predicted_change_pct''
           = Some (PyNum (fl_round2 (fl_mul (predicted_change_of data days) (Fin 100))))"
    and "predict_short_term data days ''direction''
           = Some (PyStr (if fl_lt (Fin 0) (predicted_change_of data days)
                          then ''Up'' else ''Down''))"
  using assms by (auto simp add: predict_short_term_def Let_def)

lemma py_round2_0: "py_round2 0 = 0"
  by (simp add: py_round2_def round_half_even_def)

text \<open>
  Claim C5, as stated: for every series of at least 30 rows with a constant close price,
  \<open>predicted_change_pct == 0.0\<close>.  It fails for the constant close price 0: every daily
  return is then \<open>0/0 - 1\<close>, which is \<open>nan\<close>, and the reported change is \<open>nan\<close>, which is
  not equal to \<open>0.0\<close>.
\<close>

theorem short_term_flat_zero_price_is_nan:
  "predict_short_term
     (replicate 40 \<lparr>Open = 0, High = 0, Low = 0, Close = 0, Volume = 1000\<rparr>) 1
     ''predicted_change_pct'' = Some (PyNum NaN)"
proof -
  let ?data = "replicate 40 \<lparr>Open = 0, High = 0, Low = 0, Close = 0, Volume = 1000\<rparr>"
  have len: "30 \<le> length ?data" by simp
  have flat: "\<forall>r\<in>set ?data. Close r = 0" by simp
  show ?thesis
    by (simp only: predict_short_term_fields(1) [OF len] predicted_change_flat_zero [OF len flat]
        fl_mul.simps fl_round2.simps)
qed

text \<open>
  Claim C5, amended: for every series of at least 30 rows whose close price is constant
  and not zero, and every number of days, \<open>predict_short_term\<close> returns
  \<open>predicted_change_pct == 0.0\<close> and \<open>direction == 'Down'\<close>: the direction is \<open>'Up'\<close> only
  for a strictly positive predicted change.  (For the constant close price 0 the direction
  is \<open>'Down'\<close> as well and the predicted change is \<open>nan\<close>.)
\<close>

theorem short_term_flat_series:
  assumes "30 \<le> length data" and "\<forall>r\<in>set data. Close r = c"
  shows "(c \<noteq> 0 \<longrightarrow>
            predict_short_term data days ''predicted_change_pct'' = Some (PyNum (Fin 0)))
     \<and> (c = 0 \<longrightarrow> predict_short_term data days ''predicted_change_pct'' = Some (PyNum NaN))
     \<and> predict_short_term data days ''direction'' = Some (PyStr ''Down'')"
proof (cases "c = 0")
  case True
  with assms(2) have "\<forall>r\<in>set data. Close r = 0" by simp
  from predicted_change_flat_zero [OF assms(1) this] True show ?thesis
    by (simp add: predict_short_term_fields [OF assms(1)])
next
  case False
  from predicted_change_flat [OF assms False] False show ?thesis
    by (simp add: predict_short_term_fields [OF assms(1)] py_round2_0)
qed

theorem short_term_flat_series_witness:
  "predict_short_term
     (replicate 40 \<lparr>Open = 100, High = 100, Low = 100, Close = 100, Volume = 1000\<rparr>) 1
     ''predicted_change_pct'' = Some (PyNum (Fin 0))
   \<and> predict_short_term
     (replicate 40 \<lparr>Open = 100, High = 100, Low = 100, Close = 100, Volume = 1000\<rparr>) 1
     ''direction'' = Some (PyStr ''Down'')
   \<and> predict_short_term
     (replicate 30 \<lparr>Open = 0, High = 0, Low = 0, Close = 0, Volume = 0\<rparr>) 5
     ''direction'' = Some (PyStr ''Down'')"
  using short_term_flat_series
    [of "replicate 40 \<lparr>Open = 100, High = 100, Low = 100, Close = 100, Volume = 1000\<rparr>" 100 1]
    short_term_flat_series
    [of "replicate 30 \<lparr>Open = 0, High = 0, Low = 0, Close = 0, Volume = 0\<rparr>" 0 5]
  by simp

text \<open>
  Claim C8: for every price series and every number of weeks,
  \<open>predict_medium_term(data, weeks)\<close> returns exactly what
  \<open>predict_short_term(data, days = weeks * 7)\<close> returns.
\<close>

theorem medium_term_is_short_term:
  "predict_medium_term data weeks = predict_short_term data (weeks * 7)"
  by (simp add: predict_medium_term_def)

section \<open>The long-term forecast\<close>

text \<open>
  Claim C7: for every series with at least 100 but fewer than 126 rows,
  \<open>predict_long_term\<close> uses a 6-month growth (and a 12-month growth) equal to its 3-month
  growth, which is the growth over the last 63 rows, in the weighted blend that it
  reports; and for every series with fewer than 100 rows it returns
  \<open>{prediction: 'Insufficient data', confidence: 0}\<close>.
\<close>

theorem long_term_fallbacks:
  "(100 \<le> length data \<and> length data < 126 \<longrightarrow>
      growth_6m data = growth_3m data
      \<and> growth_3m data = growth_since (map Close data) 63
      \<and> avg_growth data =
          fl_add (fl_add (fl_mul (growth_3m data) (Fin 0.5)) (fl_mul (growth_3m data) (Fin 0.3)))
                 (fl_mul (growth_3m data) (Fin 0.2))
      \<and> predict_long_term data months ''annual_growth_rate'' =
          Some (PyNum (fl_round2 (fl_mul (fl_mul (avg_growth data) (Fin 4)) (Fin 100)))))
   \<and> (length data < 100 \<longrightarrow>
      predict_long_term data months =
        [''prediction'' \<mapsto> PyStr ''Insufficient data'', ''confidence'' \<mapsto> PyNum (Fin 0)])"
proof (intro conjI impI; (elim conjE)?)
  assume "length data < 100"
  then show "predict_long_term data months =
        [''prediction'' \<mapsto> PyStr ''Insufficient data'', ''confidence'' \<mapsto> PyNum (Fin 0)]"
    by (simp add: predict_long_term_def)
next
  assume len: "100 \<le> length data" "length data < 126"
  then show g6: "growth_6m data = growth_3m data"
    by (simp add: growth_6m_def)
  from len show "growth_3m data = growth_since (map Close data) 63"
    by (simp add: growth_3m_def)
  from len have g12: "growth_12m data = growth_3m data"
    by (simp add: growth_12m_def growth_6m_def)
  show "avg_growth data =
          fl_add (fl_add (fl_mul (growth_3m data) (Fin 0.5)) (fl_mul (growth_3m data) (Fin 0.3)))
                 (fl_mul (growth_3m data) (Fin 0.2))"
    by (simp add: avg_growth_def g6 g12)
  from len have "\<not> (data = [] \<or> length data < 100)" by auto
  then show "predict_long_term data months ''annual_growth_rate'' =
          Some (PyNum (fl_round2 (fl_mul (fl_mul (avg_growth data) (Fin 4)) (Fin 100))))"
    by (simp add: predict_long_term_def Let_def)
qed

theorem long_term_fallbacks_witness:
  "growth_6m (replicate 100 \<lparr>Open = 100, High = 100, Low = 100, Close = 100, Volume = 1000\<rparr>)
     = growth_3m (replicate 100 \<lparr>Open = 100, High = 100, Low = 100, Close = 100, Volume = 1000\<rparr>)
   \<and> predict_long_term
       (replicate 99 \<lparr>Open = 100, High = 100, Low = 100, Close = 100, Volume = 1000\<rparr>) 12
     = [''prediction'' \<mapsto> PyStr ''Insufficient data'', ''confidence'' \<mapsto> PyNum (Fin 0)]"
  using
    long_term_fallbacks
      [of "replicate 100 \<lparr>Open = 100, High = 100, Low = 100, Close = 100, Volume = 1000\<rparr>" 12]
    long_term_fallbacks
      [of "replicate 99 \<lparr>Open = 100, High = 100, Low = 100, Close = 100, Volume = 1000\<rparr>" 12]
  by simp

section \<open>The technical score\<close>

lemma py_round2_of_int: "py_round2 (of_int n) = of_int n"
proof -
  have "round_half_even (of_int (n * 100)) = n * 100"
    unfolding round_half_even_def Let_def floor_of_int by simp
  moreover have "(of_int n :: real) * 100 = of_int (n * 100)" by simp
  ultimately have "round_half_even (of_int n * 100) = n * 100" by (simp only:)
  then show ?thesis by (simp add: py_round2_def)
qed

lemma calculate_technical_score_points:
  assumes "50 \<le> length data" and "ta data = Inr rd"
  shows "tech_score (calculate_technical_score ta data) =
     of_int (rsi_points (current_rsi rd)
        + macd_points (macd_line rd) (signal_line rd)
        + ma_points (Fin (Close (last data))) (last (rolling_mean 20 (map Close data)))
            (last (rolling_mean 50 (map Close data)))
        + bb_points (Fin (Close (last data))) (bb_low rd) (bb_high rd) (bb_mid rd)
        + volume_points (Fin (Volume (last data))) (last (rolling_mean 20 (map Volume data)))
        + adx_points (adx_value rd))"
proof -
  from assms(1) have "\<not> (data = [] \<or> length data < 50)" by auto
  then have "tech_score (calculate_technical_score ta data) =
     py_round2 (of_int (rsi_points (current_rsi rd)
        + macd_points (macd_line rd) (signal_line rd)
        + ma_points (Fin (Close (last data))) (last (rolling_mean 20 (map Close data)))
            (last (rolling_mean 50 (map Close data)))
        + bb_points (Fin (Close (last data))) (bb_low rd) (bb_high rd) (bb_mid rd)
        + volume_points (Fin (Volume (last data))) (last (rolling_mean 20 (map Volume data)))
        + adx_points (adx_value rd)))"
    using assms(2) by (simp add: calculate_technical_score_def Let_def)
  then show ?thesis by (simp only: py_round2_of_int)
qed

lemma rsi_points_values:
  "rsi_points rsi = (if fl_lt (Fin 30) rsi \<and> fl_lt rsi (Fin 70) then 15 else 0)"
  by (cases rsi) (auto simp: rsi_points_def)

text \<open>
  Claim C1 says that the RSI block awards 20 points for a current RSI strictly between 40
  and 60.  The code tests \<open>30 < rsi < 70\<close> first (line 47), so the branch for
  \<open>40 < rsi < 60\<close> (line 49) is never taken: at the reading 50 the block awards 15 points,
  not 20.
\<close>

theorem rsi_50_scores_15:
  "rsi_points (Fin 50) = 15 \<and> rsi_points (Fin 50) \<noteq> 20"
  by (simp add: rsi_points_def)


end
